theory Spec2Isabelle
  imports Complex_Main "HOL-Library.Multiset"
begin

section \<open>Conventions of the embedding\<close>

text \<open>
  Python \<open>float\<close> values are modelled as \<^typ>\<open>real\<close>, Python \<open>int\<close> as \<^typ>\<open>int\<close>,
  \<open>Optional[T]\<close> as \<^typ>\<open>'a option\<close>, and \<open>str\<close> as \<^typ>\<open>string\<close> whose characters
  are read as the Unicode code points 0..255.  A raised exception is the \<open>Inl\<close> branch
  of a sum.  Clock readings (\<open>time.time() * 1000\<close>) are explicit arguments.

  Float arithmetic is exact in the model, except in \<open>_percentile\<close>, whose index
  computation rounds each operation to a double with \<open>fl\<close> below.  Elsewhere the
  source's doubles can differ from the model in the last place; this shows only at
  inputs that sit on a threshold, and the definitions concerned say so.
\<close>

datatype py_error = ValueError string | ZeroDivisionError | IndexError

text \<open>\<open>str(n)\<close> for integers, as used by f-strings.\<close>

function str_nat :: "nat \<Rightarrow> string" where
  "str_nat n =
     (if n < 10 then [''0123456789'' ! n]
      else str_nat (n div 10) @ [''0123456789'' ! (n mod 10)])"
  by pat_completeness auto
termination
  by (relation "measure (\<lambda>n. n)") auto

declare str_nat.simps [simp del]

definition str_int :: "int \<Rightarrow> string" where
  "str_int i = (if i < 0 then CHR ''-'' # str_nat (nat (- i)) else str_nat (nat i))"


text \<open>Rounding to the nearest integer, ties to the even one.\<close>

definition round_half_even :: "real \<Rightarrow> int" where
  "round_half_even x =
     (let f = \<lfloor>x\<rfloor>; d = x - of_int f
      in if d < 1 / 2 then f else if 1 / 2 < d then f + 1
         else if even f then f else f + 1)"

text \<open>
  \<open>fl x\<close> is the IEEE 754 double nearest to \<open>x\<close> (ties to even): with \<open>e\<close> the binary
  exponent of \<open>x\<close>, not below that of the smallest normal double, \<open>x\<close> is rounded to a
  multiple of \<open>2^(e-52)\<close>.  Overflow to infinity is not modelled.
\<close>

definition fl :: "real \<Rightarrow> real" where
  "fl x =
     (if x = 0 then 0
      else
        let e = max \<lfloor>log 2 \<bar>x\<bar>\<rfloor> (- 1022);
            q = 2 powi (e - 52)
        in real_of_int (round_half_even (x / q)) * q)"


section \<open>Performance collector (performance\_collector.py)\<close>

text \<open>
  \<open>MODEL_PRICING\<close>: price per million tokens, as (input, output).
\<close>

definition MODEL_PRICING :: "string \<Rightarrow> (real \<times> real) option" where
  "MODEL_PRICING m =
     (if m = ''llama3.1:8b'' then Some (0, 0)
      else if m = ''llama3.2:latest'' then Some (0, 0)
      else if m = ''mistral:7b'' then Some (0, 0)
      else if m = ''gpt-4'' then Some (30, 60)
      else if m = ''gpt-4-turbo'' then Some (10, 30)
      else if m = ''gpt-3.5-turbo'' then Some (1 / 2, 3 / 2)
      else if m = ''claude-3-opus'' then Some (15, 75)
      else if m = ''claude-3-sonnet'' then Some (3, 15)
      else if m = ''claude-3-haiku'' then Some (1 / 4, 5 / 4)
      else None)"

text \<open>
  \<open>TokenUsage\<close>; its fields carry the prefix \<open>u_\<close> because \<open>PerformanceMetric\<close>
  has fields of the same names.
\<close>

record TokenUsage =
  u_input_tokens :: int
  u_output_tokens :: int
  u_model :: string

record PerformanceMetric =
  request_id :: string
  start_time :: real
  end_time :: "real option"
  latency :: "real option"
  input_tokens :: "int option"
  output_tokens :: "int option"
  total_tokens :: "int option"
  model :: "string option"
  cost :: "real option"
  success :: bool
  error :: "string option"

text \<open>
  \<open>PerformanceReport\<close>; \<open>start_time\<close>/\<open>end_time\<close> of the report are named
  \<open>report_start\<close>/\<open>report_end\<close> and hold the argument given to
  \<open>datetime.fromtimestamp\<close> (seconds).  That conversion raises for clock values
  outside the platform's range; this failure, which comes after both data guards of
  \<open>generate_report\<close>, is not modelled.
\<close>

record PerformanceReport =
  total_requests :: nat
  successful_requests :: nat
  failed_requests :: nat
  error_rate :: real
  mean_latency :: real
  median_latency :: real
  p95_latency :: real
  p99_latency :: real
  min_latency :: real
  max_latency :: real
  std_deviation :: real
  total_input_tokens :: int
  total_output_tokens :: int
  report_total_tokens :: int
  mean_input_tokens :: real
  mean_output_tokens :: real
  total_cost :: real
  mean_cost :: real
  duration :: real
  requests_per_second :: real
  tokens_per_second :: real
  report_start :: real
  report_end :: real

text \<open>The collector's state: \<open>_metrics\<close>, \<open>_active_requests\<close>, \<open>_request_counter\<close>.\<close>

record PerformanceCollector =
  metrics :: "PerformanceMetric list"
  active_requests :: "string \<rightharpoonup> PerformanceMetric"
  request_counter :: int

definition new_collector :: PerformanceCollector where
  "new_collector = \<lparr>metrics = [], active_requests = Map.empty, request_counter = 0\<rparr>"

text \<open>\<open>int(x)\<close> on a float truncates towards zero.\<close>

definition py_trunc :: "real \<Rightarrow> int" where
  "py_trunc x = (if 0 \<le> x then \<lfloor>x\<rfloor> else \<lceil>x\<rceil>)"

text \<open>
  \<open>start_request\<close>: \<open>t_id\<close> and \<open>t_start\<close> are the two clock readings
  \<open>time.time() * 1000\<close>.  The result is the new state and the handle's request id.
\<close>

definition start_request ::
  "PerformanceCollector \<Rightarrow> real \<Rightarrow> real \<Rightarrow> PerformanceCollector \<times> string" where
  "start_request c t_id t_start =
     (let counter = request_counter c + 1;
          rid = ''req_'' @ str_int counter @ ''_'' @ str_int (py_trunc t_id);
          metric = \<lparr>request_id = rid, start_time = t_start, end_time = None,
                    latency = None, input_tokens = None, output_tokens = None,
                    total_tokens = None, model = None, cost = None,
                    success = True, error = None\<rparr>
      in (c\<lparr>request_counter := counter,
            active_requests := (active_requests c)(rid \<mapsto> metric)\<rparr>, rid))"

definition calculate_cost :: "TokenUsage \<Rightarrow> real" where
  "calculate_cost usage =
     (case MODEL_PRICING (u_model usage) of
        None \<Rightarrow> 0
      | Some (p_in, p_out) \<Rightarrow>
          (real_of_int (u_input_tokens usage) / 1000000) * p_in
          + (real_of_int (u_output_tokens usage) / 1000000) * p_out)"

text \<open>Truthiness of an \<open>Optional[str]\<close>: \<open>None\<close> and the empty string are falsy.\<close>

definition truthy_str :: "string option \<Rightarrow> bool" where
  "truthy_str e = (case e of None \<Rightarrow> False | Some s \<Rightarrow> s \<noteq> [])"

text \<open>
  \<open>_end_request\<close> (reached through \<open>RequestHandle.end\<close>); \<open>now\<close> is the clock reading.
  A raised \<open>ValueError\<close> leaves the collector as it was.
\<close>

definition end_request ::
  "PerformanceCollector \<Rightarrow> real \<Rightarrow> string \<Rightarrow> TokenUsage option \<Rightarrow> string option
     \<Rightarrow> py_error + PerformanceCollector" where
  "end_request c now rid usage err =
     (case active_requests c rid of
        None \<Rightarrow> Inl (ValueError (''Request '' @ rid @ '' not found''))
      | Some metric \<Rightarrow>
          (let m1 = metric\<lparr>end_time := Some now,
                           latency := Some (now - start_time metric)\<rparr>;
               m2 = (if truthy_str err then m1\<lparr>success := False, error := err\<rparr> else m1);
               m3 = (case usage of
                       None \<Rightarrow> m2
                     | Some u \<Rightarrow>
                         m2\<lparr>input_tokens := Some (u_input_tokens u),
                            output_tokens := Some (u_output_tokens u),
                            total_tokens := Some (u_input_tokens u + u_output_tokens u),
                            model := Some (u_model u),
                            cost := Some (calculate_cost u)\<rparr>)
           in Inr (c\<lparr>metrics := metrics c @ [m3],
                     active_requests := (active_requests c)(rid := None)\<rparr>)))"

definition record_metric :: "PerformanceCollector \<Rightarrow> PerformanceMetric \<Rightarrow> PerformanceCollector" where
  "record_metric c m = c\<lparr>metrics := metrics c @ [m]\<rparr>"

text \<open>
  Statistical helpers \<open>_mean\<close>, \<open>_standard_deviation\<close>, \<open>_percentile\<close>.  In
  \<open>_percentile\<close> the quotient \<open>p / 100\<close> and its product with the length are each
  rounded to a double before \<open>math.ceil\<close> (a list's length is below \<open>2^53\<close> and
  converts exactly).
\<close>

definition mean :: "real list \<Rightarrow> real" where
  "mean vs = (if length vs = 0 then 0 else sum_list vs / real (length vs))"

definition standard_deviation :: "real list \<Rightarrow> real \<Rightarrow> real" where
  "standard_deviation vs mu =
     (if length vs = 0 then 0
      else sqrt (sum_list (map (\<lambda>v. (v - mu) ^ 2) vs) / real (length vs)))"

definition percentile :: "real list \<Rightarrow> real \<Rightarrow> real" where
  "percentile sorted_values p =
     (if length sorted_values = 0 then 0
      else
        let index = \<lceil>fl (fl (p / 100) * real (length sorted_values))\<rceil> - 1;
            index = max 0 (min index (int (length sorted_values) - 1))
        in sorted_values ! nat index)"

text \<open>\<open>x or 0\<close> on an optional number: \<open>None\<close> and zero both give zero.\<close>

definition or_zero :: "'a::zero option \<Rightarrow> 'a" where
  "or_zero v = (case v of None \<Rightarrow> 0 | Some x \<Rightarrow> x)"

text \<open>\<open>m.end_time or m.start_time\<close>: an end time of \<open>None\<close> or \<open>0.0\<close> is falsy.\<close>

definition end_or_start :: "PerformanceMetric \<Rightarrow> real" where
  "end_or_start m =
     (case end_time m of
        None \<Rightarrow> start_time m
      | Some e \<Rightarrow> if e = 0 then start_time m else e)"

definition successful_of :: "PerformanceCollector \<Rightarrow> PerformanceMetric list" where
  "successful_of c = filter success (metrics c)"

definition latencies_of :: "PerformanceCollector \<Rightarrow> real list" where
  "latencies_of c = sort (List.map_filter latency (successful_of c))"

definition generate_report :: "PerformanceCollector \<Rightarrow> py_error + PerformanceReport" where
  "generate_report c =
     (if length (metrics c) = 0 then Inl (ValueError ''No metrics recorded'')
      else
        let successful = successful_of c;
            failed = filter (\<lambda>m. \<not> success m) (metrics c);
            latencies = latencies_of c
        in if length latencies = 0
           then Inl (ValueError ''No successful requests with latency data to generate report'')
           else
             let mean_lat = mean latencies;
                 std_dev = standard_deviation latencies mean_lat;
                 in_toks = map (\<lambda>m. or_zero (input_tokens m)) successful;
                 out_toks = map (\<lambda>m. or_zero (output_tokens m)) successful;
                 costs = map (\<lambda>m. or_zero (cost m)) successful;
                 min_time = Min (set (map start_time (metrics c)));
                 max_time = Max (set (map end_or_start (metrics c)));
                 dur = max ((max_time - min_time) / 1000) (1 / 1000);
                 tot_in = sum_list in_toks;
                 tot_out = sum_list out_toks;
                 tot = tot_in + tot_out
             in Inr \<lparr>total_requests = length (metrics c),
                     successful_requests = length successful,
                     failed_requests = length failed,
                     error_rate = real (length failed) / real (length (metrics c)),
                     mean_latency = mean_lat,
                     median_latency = percentile latencies 50,
                     p95_latency = percentile latencies 95,
                     p99_latency = percentile latencies 99,
                     min_latency = Min (set latencies),
                     max_latency = Max (set latencies),
                     std_deviation = std_dev,
                     total_input_tokens = tot_in,
                     total_output_tokens = tot_out,
                     report_total_tokens = tot,
                     mean_input_tokens = mean (map real_of_int in_toks),
                     mean_output_tokens = mean (map real_of_int out_toks),
                     total_cost = sum_list costs,
                     mean_cost = mean costs,
                     duration = dur,
                     requests_per_second = real (length (metrics c)) / dur,
                     tokens_per_second = real_of_int tot / dur,
                     report_start = min_time / 1000,
                     report_end = max_time / 1000\<rparr>)"

text \<open>Sample metrics used to exercise the report.\<close>

definition failed_metric :: PerformanceMetric where
  "failed_metric = \<lparr>request_id = ''req_1_0'', start_time = 0, end_time = Some 5,
      latency = Some 5, input_tokens = None, output_tokens = None, total_tokens = None,
      model = None, cost = None, success = False, error = Some ''boom''\<rparr>"

definition metric_a :: PerformanceMetric where
  "metric_a = \<lparr>request_id = ''a'', start_time = 0, end_time = Some 10,
      latency = Some 10, input_tokens = Some 100, output_tokens = Some 40,
      total_tokens = Some 140, model = Some ''gpt-4'', cost = Some (6 / 1000),
      success = True, error = None\<rparr>"

definition metric_b :: PerformanceMetric where
  "metric_b = \<lparr>request_id = ''b'', start_time = 0, end_time = Some 20,
      latency = Some 20, input_tokens = None, output_tokens = None,
      total_tokens = None, model = None, cost = None,
      success = True, error = None\<rparr>"


section \<open>Metrics aggregator (metrics\_aggregator.py)\<close>

text \<open>
  The f-string conversion \<open>{x:.kf}\<close> on exact values: round half to even at \<open>k\<close>
  decimals, with the sign of \<open>x\<close>.
\<close>

definition fmt_fixed :: "nat \<Rightarrow> real \<Rightarrow> string" where
  "fmt_fixed k x =
     (let r = nat (round_half_even (\<bar>x\<bar> * 10 ^ k));
          ip = str_nat (r div 10 ^ k);
          fp = str_nat (r mod 10 ^ k)
      in (if x < 0 then ''-'' else []) @ ip
         @ (if k = 0 then [] else CHR ''.'' # replicate (k - length fp) CHR ''0'' @ fp))"

text \<open>Module constants.\<close>

definition DEFAULT_SIMILARITY_DROP_THRESHOLD :: real where
  "DEFAULT_SIMILARITY_DROP_THRESHOLD = 1 / 10"

definition DEFAULT_LATENCY_INCREASE_THRESHOLD :: real where
  "DEFAULT_LATENCY_INCREASE_THRESHOLD = 25 / 100"

definition DEFAULT_PASS_RATE_DROP_THRESHOLD :: real where
  "DEFAULT_PASS_RATE_DROP_THRESHOLD = 5 / 100"

definition DEFAULT_MIN_TEST_RUNS :: int where
  "DEFAULT_MIN_TEST_RUNS = 3"

definition CRITICAL_SIMILARITY_DROP_THRESHOLD :: real where
  "CRITICAL_SIMILARITY_DROP_THRESHOLD = 2 / 10"

definition CRITICAL_LATENCY_INCREASE_THRESHOLD :: real where
  "CRITICAL_LATENCY_INCREASE_THRESHOLD = 5 / 10"

definition CRITICAL_PASS_RATE_DROP_THRESHOLD :: real where
  "CRITICAL_PASS_RATE_DROP_THRESHOLD = 1 / 10"

definition MIN_RUNS_FOR_TREND :: nat where
  "MIN_RUNS_FOR_TREND = 5"

definition TREND_IMPROVEMENT_THRESHOLD :: real where
  "TREND_IMPROVEMENT_THRESHOLD = 5 / 100"

definition TREND_DEGRADATION_THRESHOLD :: real where
  "TREND_DEGRADATION_THRESHOLD = - (5 / 100)"

definition MAX_HISTORY_RUNS :: nat where
  "MAX_HISTORY_RUNS = 100"

definition DEFAULT_BASELINE_RUNS :: int where
  "DEFAULT_BASELINE_RUNS = 10"

text \<open>
  \<open>TestRunResult\<close>.  The timestamp is a point on the real line.  Fields whose names
  also occur in another record carry the prefix \<open>run_\<close>.
\<close>

record TestRunResult =
  timestamp :: real
  test_suite :: string
  total_tests :: int
  run_passed :: int
  run_failed :: int
  run_skipped :: int
  run_duration :: real
  avg_similarity :: "real option"
  avg_bleu_score :: "real option"
  avg_latency :: "real option"
  run_p95_latency :: "real option"
  run_p99_latency :: "real option"
  avg_tokens :: "real option"
  run_total_cost :: "real option"
  security_violations :: "int option"
  avg_risk_score :: "real option"
  run_model :: "string option"
  version :: "string option"
  run_notes :: "string option"

text \<open>\<open>AggregatedMetrics\<close>, fields prefixed \<open>agg_\<close> where the name is taken.\<close>

record AggregatedMetrics =
  period :: string
  test_runs :: nat
  avg_pass_rate :: real
  agg_avg_similarity :: real
  agg_avg_latency :: real
  trend :: string

record RegressionAlert =
  severity :: string
  metric :: string
  current :: real
  baseline :: real
  percent_change :: real
  message :: string
  alert_timestamp :: real

record AlertThresholds =
  similarity_drop :: real
  latency_increase :: real
  pass_rate_drop :: real
  min_test_runs :: int

definition default_thresholds :: AlertThresholds where
  "default_thresholds =
     \<lparr>similarity_drop = DEFAULT_SIMILARITY_DROP_THRESHOLD,
      latency_increase = DEFAULT_LATENCY_INCREASE_THRESHOLD,
      pass_rate_drop = DEFAULT_PASS_RATE_DROP_THRESHOLD,
      min_test_runs = DEFAULT_MIN_TEST_RUNS\<rparr>"

text \<open>
  The aggregator's state is its thresholds and the history list that
  \<open>_load_history\<close> returns; both are explicit arguments below.
\<close>

definition record_test_run :: "TestRunResult list \<Rightarrow> TestRunResult \<Rightarrow> TestRunResult list" where
  "record_test_run history result =
     (let h = history @ [result]
      in if MAX_HISTORY_RUNS < length h then drop (length h - MAX_HISTORY_RUNS) h else h)"

text \<open>The slice \<open>xs[a:b]\<close> and \<open>xs[a:]\<close> for arbitrary integer bounds.\<close>

definition slice_bound :: "int \<Rightarrow> int \<Rightarrow> int" where
  "slice_bound len i = (if i < 0 then max 0 (len + i) else min i len)"

definition py_slice :: "'a list \<Rightarrow> int \<Rightarrow> int \<Rightarrow> 'a list" where
  "py_slice xs a b =
     (let len = int (length xs); s = slice_bound len a; e = slice_bound len b
      in take (nat (e - s)) (drop (nat s) xs))"

definition py_slice_from :: "'a list \<Rightarrow> int \<Rightarrow> 'a list" where
  "py_slice_from xs a = drop (nat (slice_bound (int (length xs)) a)) xs"

definition get_recent_runs :: "TestRunResult list \<Rightarrow> int \<Rightarrow> TestRunResult list" where
  "get_recent_runs history cnt =
     (if cnt \<le> int (length history) then py_slice_from history (- cnt) else history)"

text \<open>
  \<open>_calculate_trend\<close>, in exact arithmetic: where the difference of the two means lies
  within a rounding error of a threshold, the source's doubles can decide otherwise.
\<close>

definition calculate_trend :: "TestRunResult list \<Rightarrow> string" where
  "calculate_trend runs =
     (if length runs < MIN_RUNS_FOR_TREND then ''stable''
      else
        let mid = length runs div 2;
            first_half = take mid runs;
            second_half = drop mid runs;
            first_avg_sim = mean (List.map_filter avg_similarity first_half);
            second_avg_sim = mean (List.map_filter avg_similarity second_half)
        in if first_avg_sim = 0 \<or> second_avg_sim = 0 then ''stable''
           else
             let change = second_avg_sim - first_avg_sim
             in if TREND_IMPROVEMENT_THRESHOLD < change then ''improving''
                else if change < TREND_DEGRADATION_THRESHOLD then ''degrading''
                else ''stable'')"

definition calculate_baseline ::
  "AlertThresholds \<Rightarrow> TestRunResult list \<Rightarrow> int \<Rightarrow> AggregatedMetrics option" where
  "calculate_baseline th history runs =
     (let recent_runs = get_recent_runs history runs
      in if int (length recent_runs) < min_test_runs th then None
         else
           let total = sum_list (map total_tests recent_runs);
               total_passed = sum_list (map run_passed recent_runs);
               similarities = List.map_filter avg_similarity recent_runs;
               latencies = List.map_filter avg_latency recent_runs
           in Some \<lparr>period = ''last_'' @ str_int runs @ ''_runs'',
                     test_runs = length recent_runs,
                     avg_pass_rate =
                       (if 0 < total then real_of_int total_passed / real_of_int total else 0),
                     agg_avg_similarity = mean similarities,
                     agg_avg_latency = mean latencies,
                     trend = calculate_trend recent_runs\<rparr>)"

text \<open>
  The three checks of \<open>check_for_regressions\<close>, each yielding the alerts it
  appends; the similarity check divides by the baseline similarity and so can raise.
  The changes are computed in exact arithmetic: where a change lies within a rounding
  error of a threshold, the source's doubles can decide otherwise.
\<close>

definition similarity_alerts ::
  "AlertThresholds \<Rightarrow> TestRunResult \<Rightarrow> AggregatedMetrics \<Rightarrow> py_error + RegressionAlert list" where
  "similarity_alerts th latest b =
     (case avg_similarity latest of
        None \<Rightarrow> Inr []
      | Some sim \<Rightarrow>
          if agg_avg_similarity b = 0 then Inl ZeroDivisionError
          else
            let sim_change = (sim - agg_avg_similarity b) / agg_avg_similarity b
            in if sim_change < - similarity_drop th
               then Inr [\<lparr>severity =
                            (if sim_change \<le> - CRITICAL_SIMILARITY_DROP_THRESHOLD
                             then ''critical'' else ''warning''),
                          metric = ''similarity'',
                          current = sim,
                          baseline = agg_avg_similarity b,
                          percent_change = sim_change * 100,
                          message =
                            ''Similarity dropped '' @ fmt_fixed 1 \<bar>sim_change * 100\<bar>
                            @ ''% ('' @ fmt_fixed 2 sim @ '' vs baseline ''
                            @ fmt_fixed 2 (agg_avg_similarity b) @ '')'',
                          alert_timestamp = timestamp latest\<rparr>]
               else Inr [])"

definition latency_alerts ::
  "AlertThresholds \<Rightarrow> TestRunResult \<Rightarrow> AggregatedMetrics \<Rightarrow> RegressionAlert list" where
  "latency_alerts th latest b =
     (case avg_latency latest of
        None \<Rightarrow> []
      | Some lat \<Rightarrow>
          if 0 < agg_avg_latency b then
            let latency_change = (lat - agg_avg_latency b) / agg_avg_latency b
            in if latency_increase th < latency_change
               then [\<lparr>severity =
                        (if CRITICAL_LATENCY_INCREASE_THRESHOLD \<le> latency_change
                         then ''critical'' else ''warning''),
                      metric = ''latency'',
                      current = lat,
                      baseline = agg_avg_latency b,
                      percent_change = latency_change * 100,
                      message =
                        ''Latency increased '' @ fmt_fixed 1 (latency_change * 100)
                        @ ''% ('' @ fmt_fixed 0 lat @ ''ms vs baseline ''
                        @ fmt_fixed 0 (agg_avg_latency b) @ ''ms)'',
                      alert_timestamp = timestamp latest\<rparr>]
               else []
          else [])"

definition pass_rate_alerts ::
  "AlertThresholds \<Rightarrow> TestRunResult \<Rightarrow> AggregatedMetrics \<Rightarrow> RegressionAlert list" where
  "pass_rate_alerts th latest b =
     (let current_pass_rate =
            (if 0 < total_tests latest
             then real_of_int (run_passed latest) / real_of_int (total_tests latest) else 0);
          pass_rate_change = current_pass_rate - avg_pass_rate b
      in if pass_rate_change < - pass_rate_drop th
         then [\<lparr>severity =
                  (if pass_rate_change < - CRITICAL_PASS_RATE_DROP_THRESHOLD
                   then ''critical'' else ''warning''),
                metric = ''pass_rate'',
                current = current_pass_rate,
                baseline = avg_pass_rate b,
                percent_change =
                  (if 0 < avg_pass_rate b
                   then (pass_rate_change / avg_pass_rate b) * 100 else 0),
                message =
                  ''Pass rate dropped '' @ fmt_fixed 1 \<bar>pass_rate_change * 100\<bar>
                  @ ''% ('' @ fmt_fixed 1 (current_pass_rate * 100) @ ''% vs baseline ''
                  @ fmt_fixed 1 (avg_pass_rate b * 100) @ ''%)'',
                alert_timestamp = timestamp latest\<rparr>]
         else [])"

text \<open>
  The comparison of one run with one baseline: the part of
  \<open>check_for_regressions\<close> after the baseline has been obtained.
\<close>

definition compare_with_baseline ::
  "AlertThresholds \<Rightarrow> TestRunResult \<Rightarrow> AggregatedMetrics \<Rightarrow> py_error + RegressionAlert list" where
  "compare_with_baseline th latest b =
     (case similarity_alerts th latest b of
        Inl e \<Rightarrow> Inl e
      | Inr sim_alerts \<Rightarrow>
          Inr (sim_alerts @ latency_alerts th latest b @ pass_rate_alerts th latest b))"

text \<open>\<open>history[-1]\<close> raises \<open>IndexError\<close> on an empty list.\<close>

definition check_for_regressions ::
  "AlertThresholds \<Rightarrow> TestRunResult list \<Rightarrow> py_error + RegressionAlert list" where
  "check_for_regressions th history =
     (if int (length history) < min_test_runs th + 1 then Inr []
      else if history = [] then Inl IndexError
      else
        let latest = last history
        in case calculate_baseline th history DEFAULT_BASELINE_RUNS of
             None \<Rightarrow> Inr []
           | Some b \<Rightarrow> compare_with_baseline th latest b)"

text \<open>Sample runs used to exercise the aggregator.\<close>

definition sample_run :: "real option \<Rightarrow> TestRunResult" where
  "sample_run sim =
     \<lparr>timestamp = 0, test_suite = ''test'', total_tests = 10, run_passed = 10,
      run_failed = 0, run_skipped = 0, run_duration = 1000, avg_similarity = sim,
      avg_bleu_score = None, avg_latency = None, run_p95_latency = None,
      run_p99_latency = None, avg_tokens = None, run_total_cost = None,
      security_violations = None, avg_risk_score = None, run_model = None,
      version = None, run_notes = None\<rparr>"

definition history_dip :: "TestRunResult list" where
  "history_dip = [sample_run (Some 1), sample_run (Some 1), sample_run (Some 1),
                  sample_run (Some (88 / 100))]"

definition history_zero_start :: "TestRunResult list" where
  "history_zero_start = [sample_run (Some 0), sample_run (Some 0), sample_run (Some (1 / 2)),
                         sample_run (Some (1 / 2)), sample_run (Some (1 / 2))]"

definition prior_baseline :: AggregatedMetrics where
  "prior_baseline =
     \<lparr>period = ''last_10_runs'', test_runs = 3, avg_pass_rate = 1,
      agg_avg_similarity = 1, agg_avg_latency = 0, trend = ''stable''\<rparr>"


section \<open>Text similarity metrics (text\_similarity.py)\<close>

text \<open>
  Character classes on the code points 0..255: \<open>str.isspace\<close> (which is also the
  regular expression class \<open>\s\<close> and what \<open>str.split()\<close> splits on), the class
  \<open>\w\<close> (alphanumeric or underscore), \<open>str.isalnum\<close>, and \<open>str.lower\<close>.
\<close>

definition is_space :: "char \<Rightarrow> bool" where
  "is_space c =
     (let n = (of_char c :: nat)
      in (9 \<le> n \<and> n \<le> 13) \<or> (28 \<le> n \<and> n \<le> 32) \<or> n = 133 \<or> n = 160)"

definition is_alnum :: "char \<Rightarrow> bool" where
  "is_alnum c =
     (let n = (of_char c :: nat)
      in (48 \<le> n \<and> n \<le> 57) \<or> (65 \<le> n \<and> n \<le> 90) \<or> (97 \<le> n \<and> n \<le> 122)
         \<or> n = 170 \<or> n = 178 \<or> n = 179 \<or> n = 181 \<or> n = 185 \<or> n = 186
         \<or> (188 \<le> n \<and> n \<le> 190) \<or> (192 \<le> n \<and> n \<le> 214)
         \<or> (216 \<le> n \<and> n \<le> 246) \<or> (248 \<le> n \<and> n \<le> 255))"

definition is_word :: "char \<Rightarrow> bool" where
  "is_word c = (is_alnum c \<or> c = CHR ''_'')"

definition lower_char :: "char \<Rightarrow> char" where
  "lower_char c =
     (let n = (of_char c :: nat)
      in if (65 \<le> n \<and> n \<le> 90) \<or> (192 \<le> n \<and> n \<le> 214) \<or> (216 \<le> n \<and> n \<le> 222)
         then char_of (n + 32) else c)"

definition lower :: "string \<Rightarrow> string" where
  "lower s = map lower_char s"

text \<open>\<open>str.split()\<close>: maximal runs of non-whitespace characters.\<close>

fun split_from :: "string \<Rightarrow> string \<Rightarrow> string list" where
  "split_from cur [] = (if cur = [] then [] else [cur])"
| "split_from cur (c # cs) =
     (if is_space c then (if cur = [] then split_from [] cs else cur # split_from [] cs)
      else split_from (cur @ [c]) cs)"

definition py_split :: "string \<Rightarrow> string list" where
  "py_split s = split_from [] s"

text \<open>\<open>sep.join(parts)\<close>.\<close>

fun join :: "string \<Rightarrow> string list \<Rightarrow> string" where
  "join sep [] = []"
| "join sep [x] = x"
| "join sep (x # y # ys) = x @ sep @ join sep (y # ys)"

text \<open>\<open>_tokenize\<close>: \<open>re.sub(r'[^\w\s]', ' ', text.lower())\<close>, then split.\<close>

definition tokenize :: "string \<Rightarrow> string list" where
  "tokenize text =
     (let text' = map (\<lambda>c. if is_word c \<or> is_space c then c else CHR '' '') (lower text)
      in filter (\<lambda>word. word \<noteq> []) (py_split text'))"

text \<open>\<open>_get_ngrams\<close>: the slices \<open>tokens[i:i+n]\<close> for \<open>i\<close> in \<open>range(len(tokens) - n + 1)\<close>.\<close>

definition get_ngrams :: "string list \<Rightarrow> int \<Rightarrow> string list list" where
  "get_ngrams tokens n =
     map (\<lambda>i. py_slice tokens (int i) (int i + n)) [0..<nat (int (length tokens) - n + 1)]"

text \<open>\<open>_count_ngrams\<close>: the dictionary from joined n-gram to its number of occurrences.\<close>

fun count_into :: "(string \<rightharpoonup> int) \<Rightarrow> string list list \<Rightarrow> (string \<rightharpoonup> int)" where
  "count_into counts [] = counts"
| "count_into counts (ngram # rest) =
     (let key = join '' '' ngram
      in count_into (counts(key \<mapsto> (case counts key of None \<Rightarrow> 0 | Some c \<Rightarrow> c) + 1)) rest)"

definition count_ngrams :: "string list list \<Rightarrow> (string \<rightharpoonup> int)" where
  "count_ngrams ngrams = count_into Map.empty ngrams"

text \<open>
  The matching loop of \<open>ngram_precision\<close>, threading \<open>matches\<close> and the mutable
  \<open>ref_counts\<close>.
\<close>

fun match_loop :: "string list list \<Rightarrow> int \<Rightarrow> (string \<rightharpoonup> int) \<Rightarrow> int" where
  "match_loop [] matches ref_counts = matches"
| "match_loop (ngram # rest) matches ref_counts =
     (let key = join '' '' ngram
      in case ref_counts key of
           None \<Rightarrow> match_loop rest matches ref_counts
         | Some c \<Rightarrow>
             if 0 < c then match_loop rest (matches + 1) (ref_counts(key \<mapsto> c - 1))
             else match_loop rest matches ref_counts)"

definition ngram_precision :: "string \<Rightarrow> string \<Rightarrow> int \<Rightarrow> real" where
  "ngram_precision reference candidate n =
     (let ref_ngrams = get_ngrams (tokenize reference) n;
          cand_ngrams = get_ngrams (tokenize candidate) n
      in if length cand_ngrams = 0 then 0
         else real_of_int (match_loop cand_ngrams 0 (count_ngrams ref_ngrams))
              / real (length cand_ngrams))"

definition bleu_score :: "string \<Rightarrow> string \<Rightarrow> real" where
  "bleu_score reference candidate =
     (ngram_precision reference candidate 1 + ngram_precision reference candidate 2) / 2"

text \<open>
  \<open>cosine_similarity\<close>; the vocabulary \<open>list(set(words1 + words2))\<close> is taken in
  order of first occurrence (the sums do not depend on the order).  The square roots
  and the quotient are exact here; the source's doubles can fall short of the exact
  value in the last place (identical texts can score just below 1).
\<close>

definition cosine_similarity :: "string \<Rightarrow> string \<Rightarrow> real" where
  "cosine_similarity text1 text2 =
     (let words1 = tokenize text1;
          words2 = tokenize text2;
          vocab = remdups (words1 @ words2);
          vec1 = map (\<lambda>word. count_list words1 word) vocab;
          vec2 = map (\<lambda>word. count_list words2 word) vocab;
          dot_product = sum_list (map (\<lambda>(v1, v2). v1 * v2) (zip vec1 vec2));
          mag1 = sqrt (real (sum_list (map (\<lambda>v. v * v) vec1)));
          mag2 = sqrt (real (sum_list (map (\<lambda>v. v * v) vec2)))
      in if mag1 = 0 \<or> mag2 = 0 then 0 else real dot_product / (mag1 * mag2))"

definition jaccard_similarity :: "string \<Rightarrow> string \<Rightarrow> real" where
  "jaccard_similarity text1 text2 =
     (let words1 = set (tokenize text1);
          words2 = set (tokenize text2);
          intersection = words1 \<inter> words2;
          union = words1 \<union> words2
      in if card union = 0 then 0 else real (card intersection) / real (card union))"

definition overlap_coefficient :: "string \<Rightarrow> string \<Rightarrow> real" where
  "overlap_coefficient text1 text2 =
     (let words1 = set (tokenize text1);
          words2 = set (tokenize text2);
          intersection = words1 \<inter> words2;
          min_size = min (card words1) (card words2)
      in if min_size = 0 then 0 else real (card intersection) / real min_size)"

definition composite_similarity :: "string \<Rightarrow> string \<Rightarrow> real" where
  "composite_similarity text1 text2 =
     (5 / 10) * cosine_similarity text1 text2
     + (3 / 10) * jaccard_similarity text1 text2
     + (2 / 10) * overlap_coefficient text1 text2"

text \<open>
  \<open>re.search(r'\b' + re.escape(term) + r'\b', text)\<close>: the literal \<open>term\<close> occurs in
  \<open>text\<close> at some position with a word boundary on each side.  A word boundary is
  a position where exactly one of the neighbouring characters is a word character
  (the ends of the text count as non-word).
\<close>

definition word_boundary :: "string \<Rightarrow> nat \<Rightarrow> bool" where
  "word_boundary s i =
     ((0 < i \<and> i \<le> length s \<and> is_word (s ! (i - 1))) \<noteq> (i < length s \<and> is_word (s ! i)))"

definition search_whole_word :: "string \<Rightarrow> string \<Rightarrow> bool" where
  "search_whole_word term text =
     list_ex (\<lambda>i. i + length term \<le> length text
                  \<and> take (length term) (drop i text) = term
                  \<and> word_boundary text i
                  \<and> word_boundary text (i + length term))
       [0..<Suc (length text)]"

text \<open>The result dictionary of \<open>contains_required_terms\<close>.\<close>

record RequiredTerms =
  rt_passed :: bool
  coverage :: real
  missing :: "string list"

definition contains_required_terms :: "string \<Rightarrow> string list \<Rightarrow> RequiredTerms" where
  "contains_required_terms text required =
     (if length required = 0 then \<lparr>rt_passed = True, coverage = 1, missing = []\<rparr>
      else
        let text_lower = lower text;
            found = filter (\<lambda>term. search_whole_word (lower term) text_lower) required;
            miss = filter (\<lambda>term. \<not> search_whole_word (lower term) text_lower) required
        in \<lparr>rt_passed = (length found = length required),
            coverage = real (length found) / real (length required),
            missing = miss\<rparr>)"

text \<open>The result dictionary of \<open>validate_length\<close>.\<close>

record LengthCheck =
  lc_passed :: bool
  word_count :: int

definition validate_length :: "string \<Rightarrow> int \<Rightarrow> int \<Rightarrow> py_error + LengthCheck" where
  "validate_length text min_words max_words =
     (if min_words < 0 \<or> max_words < 0
      then Inl (ValueError ''Word count limits must be non-negative'')
      else if max_words < min_words
      then Inl (ValueError (''min_words ('' @ str_int min_words
                            @ '') cannot be greater than max_words (''
                            @ str_int max_words @ '')''))
      else
        let words = tokenize text;
            wc = int (length words)
        in Inr \<lparr>lc_passed = (min_words \<le> wc \<and> wc \<le> max_words), word_count = wc\<rparr>)"


section \<open>Summary evaluator (summary\_evaluator.py)\<close>

text \<open>The \<open>thresholds\<close> dictionary of a golden test case, with its four keys.\<close>

record Thresholds =
  min_semantic_similarity :: real
  min_length_words :: int
  max_length_words :: int
  thr_required_terms :: "string list"

record GoldenTestCase =
  case_id :: string
  category :: string
  difficulty :: string
  transcript :: string
  golden_summary :: string
  metadata :: "(string \<times> string) list"
  thresholds :: Thresholds

record EvaluationResult =
  passed :: bool
  similarity :: real
  bleu :: real
  length_check :: LengthCheck
  required_terms :: RequiredTerms
  failures :: "string list"

definition evaluate :: "string \<Rightarrow> GoldenTestCase \<Rightarrow> py_error + EvaluationResult" where
  "evaluate summary test_case =
     (let thr = thresholds test_case;
          sim = composite_similarity summary (golden_summary test_case);
          failures1 =
            (if sim < min_semantic_similarity thr
             then [''Similarity '' @ fmt_fixed 2 sim @ '' below threshold ''
                   @ fmt_fixed 2 (min_semantic_similarity thr)]
             else []);
          b = bleu_score summary (golden_summary test_case)
      in case validate_length summary (min_length_words thr) (max_length_words thr) of
           Inl e \<Rightarrow> Inl e
         | Inr lc \<Rightarrow>
             let failures2 =
                   (if \<not> lc_passed lc
                    then failures1
                         @ [''Length '' @ str_int (word_count lc) @ '' words outside range [''
                            @ str_int (min_length_words thr) @ '', ''
                            @ str_int (max_length_words thr) @ '']'']
                    else failures1);
                 rt = contains_required_terms summary (thr_required_terms thr);
                 failures3 =
                   (if \<not> rt_passed rt
                    then failures2 @ [''Missing required terms: '' @ join '', '' (missing rt)]
                    else failures2)
             in Inr \<lparr>passed = (length failures3 = 0),
                     similarity = sim,
                     bleu = b,
                     length_check = lc,
                     required_terms = rt,
                     failures = failures3\<rparr>)"

text \<open>The test case of the specification's scenario.\<close>

definition password_case :: GoldenTestCase where
  "password_case =
     \<lparr>case_id = ''call_001'', category = ''password_reset'', difficulty = ''easy'',
      transcript = [], golden_summary = ''Customer reset password successfully'',
      metadata = [],
      thresholds = \<lparr>min_semantic_similarity = 80 / 100, min_length_words = 3,
                    max_length_words = 10,
                    thr_required_terms = [''password'', ''reset'']\<rparr>\<rparr>"

section \<open>Notions used in the proofs\<close>

text \<open>
  A counts dictionary \<open>m\<close> stands for the multiset \<open>M\<close> of keys when every key's
  entry (absent read as 0) is its multiplicity.
\<close>

definition counts_of :: "(string \<rightharpoonup> int) \<Rightarrow> string multiset \<Rightarrow> bool" where
  "counts_of m M = (\<forall>k. (case m k of None \<Rightarrow> 0 | Some c \<Rightarrow> c) = int (count M k))"

text \<open>A token free of blanks and not empty, as the tokenizer produces.\<close>

definition clean_token :: "string \<Rightarrow> bool" where
  "clean_token t = (t \<noteq> [] \<and> CHR '' '' \<notin> set t)"


section \<open>Verified properties\<close>

subsection \<open>Performance collector\<close>

text \<open>
  C3. \<open>generate_report\<close> raises when no metric has been finalized, and raises a
  different error when metrics exist but none of them is successful with a latency;
  in both cases the result is an error, not a report.
\<close>

theorem generate_report_insufficient_data:
  "(metrics c = [] \<longrightarrow> generate_report c = Inl (ValueError ''No metrics recorded''))
   \<and> (metrics c \<noteq> [] \<and> \<not> (\<exists>m \<in> set (metrics c). success m \<and> latency m \<noteq> None) \<longrightarrow>
        generate_report c =
          Inl (ValueError ''No successful requests with latency data to generate report''))
   \<and> ValueError ''No metrics recorded''
        \<noteq> ValueError ''No successful requests with latency data to generate report''"
proof -
  have lat: "latencies_of c = []"
    if "\<not> (\<exists>m \<in> set (metrics c). success m \<and> latency m \<noteq> None)"
  proof -
    have "List.map_filter latency (successful_of c) = []"
      using that unfolding successful_of_def List.map_filter_def
      by (auto simp: filter_empty_conv)
    then show ?thesis by (simp add: latencies_of_def)
  qed
  show ?thesis
    by (auto simp: generate_report_def Let_def lat)
qed

theorem generate_report_insufficient_data_witness:
  "generate_report new_collector = Inl (ValueError ''No metrics recorded'')
   \<and> generate_report (record_metric new_collector failed_metric)
       = Inl (ValueError ''No successful requests with latency data to generate report'')"
  using generate_report_insufficient_data [of new_collector]
    generate_report_insufficient_data [of "record_metric new_collector failed_metric"]
  by (simp add: new_collector_def record_metric_def failed_metric_def)

text \<open>
  C4. Ending a request whose id is not in the in-flight map raises \<open>ValueError\<close>.
  A successful end removes the id from the in-flight map and appends exactly one
  finalized metric, so every later end of the same id raises, whatever its arguments.
\<close>

theorem end_request_at_most_once:
  "(active_requests c rid = None \<longrightarrow>
      end_request c now rid usage err = Inl (ValueError (''Request '' @ rid @ '' not found'')))
   \<and> (\<forall>c'. end_request c now rid usage err = Inr c' \<longrightarrow>
         active_requests c' rid = None
         \<and> length (metrics c') = Suc (length (metrics c))
         \<and> (\<forall>now' usage' err'.
              end_request c' now' rid usage' err'
                = Inl (ValueError (''Request '' @ rid @ '' not found''))))"
proof -
  have miss: "end_request d t rid u e = Inl (ValueError (''Request '' @ rid @ '' not found''))"
    if "active_requests d rid = None" for d t u e
    using that by (simp add: end_request_def)
  have gone: "active_requests c' rid = None \<and> length (metrics c') = Suc (length (metrics c))"
    if "end_request c now rid usage err = Inr c'" for c'
    using that by (auto simp: end_request_def Let_def split: option.splits)
  show ?thesis using miss gone by blast
qed

theorem end_request_at_most_once_witness:
  "(case start_request new_collector 1000 1000 of
      (c1, rid) \<Rightarrow>
        rid = ''req_1_1000''
        \<and> end_request new_collector 1500 rid None None
            = Inl (ValueError ''Request req_1_1000 not found'')
        \<and> (\<exists>c2. end_request c1 1500 rid None None = Inr c2
              \<and> length (metrics c2) = 1
              \<and> end_request c2 1600 rid None None
                  = Inl (ValueError ''Request req_1_1000 not found'')))"
proof -
  have rid: "snd (start_request new_collector 1000 1000) = ''req_1_1000''"
    by (simp add: start_request_def new_collector_def Let_def str_int_def py_trunc_def str_nat.simps)
  obtain c1 where c1: "start_request new_collector 1000 1000 = (c1, ''req_1_1000'')"
    using rid by (cases "start_request new_collector 1000 1000") simp
  have act: "active_requests c1 ''req_1_1000'' \<noteq> None" and m1: "metrics c1 = []"
    using c1 by (auto simp: start_request_def new_collector_def Let_def)
  obtain c2 where c2: "end_request c1 1500 ''req_1_1000'' None None = Inr c2"
    using act by (auto simp: end_request_def Let_def)
  have e0: "active_requests new_collector ''req_1_1000'' = None"
    by (simp add: new_collector_def)
  show ?thesis
    using end_request_at_most_once [of new_collector "''req_1_1000''" 1500 None None]
      end_request_at_most_once [of c1 "''req_1_1000''" 1500 None None] c1 c2 m1 e0
    by simp
qed

lemma fl_exponent:
  assumes "0 < x" "2 powi e \<le> x" "x < 2 powi (e + 1)" "- 1022 \<le> e"
  shows "fl x = real_of_int (round_half_even (x / 2 powi (e - 52))) * 2 powi (e - 52)"
proof -
  have p: "2 powr real_of_int k = 2 powi k" for k
    by (simp add: powr_real_of_int')
  have "2 powr real_of_int e \<le> x" "x < 2 powr (real_of_int e + 1)"
    using assms(2,3) p [of e] p [of "e + 1"] by simp_all
  then have "\<lfloor>log 2 x\<rfloor> = e"
    using assms(1) by (simp add: floor_log_eq_powr_iff)
  then show ?thesis using assms by (simp add: fl_def Let_def max_def)
qed

lemma fl_28: "fl (28 / 100) = 5044031582654956 / 2 ^ 54"
  using fl_exponent [of "28 / 100" "- 2"]
  by (simp add: round_half_even_def Let_def power_int_minus_divide)

lemma fl_28_25: "fl (5044031582654956 / 2 ^ 54 * 25) = 7881299347898369 / 2 ^ 50"
  using fl_exponent [of "5044031582654956 / 2 ^ 54 * 25" 2]
  by (simp add: round_half_even_def Let_def power_int_minus_divide)

lemma fl_95: "fl (95 / 100) = 8556839292003942 / 2 ^ 53"
  using fl_exponent [of "95 / 100" "- 1"]
  by (simp add: round_half_even_def Let_def power_int_minus_divide)

lemma fl_95_10: "fl (8556839292003942 / 2 ^ 53 * 10) = 19 / 2"
  using fl_exponent [of "8556839292003942 / 2 ^ 53 * 10" 3]
  by (simp add: round_half_even_def Let_def power_int_minus_divide)

text \<open>
  C5 at a failing input: the 28th percentile of the sample 1..25.  The claimed index is
  \<open>ceil(28/100 * 25) - 1 = 6\<close>, the element 7.  In doubles \<open>28 / 100\<close> rounds up and its
  product with 25 rounds to \<open>7.000000000000001\<close>, so the ceiling is 8 and the helper
  returns the element at index 7, which is 8.  The 95th percentile of 1..10 is 10, as
  claimed.
\<close>

theorem percentile_product_rounds_up:
  "percentile (map real [1..<26]) 28 = 8
   \<and> map real [1..<26]
       ! nat (max 0 (min (\<lceil>(28 / 100) * real (length (map real [1..<26]))\<rceil> - 1)
                         (int (length (map real [1..<26])) - 1))) = 7
   \<and> percentile [1, 2, 3, 4, 5, 6, 7, 8, 9, 10] 95 = 10"
proof -
  have c: "\<lceil>7881299347898369 / 2 ^ 50 :: real\<rceil> = 8" by (simp add: ceiling_eq_iff)
  have idx: "\<lceil>fl (fl (28 / 100) * real (25 :: nat))\<rceil> = 8"
    by (simp only: of_nat_numeral fl_28 fl_28_25 c)
  have l: "length (map real [1..<26]) = 25" by simp
  have n7: "map real [1..<26] ! 7 = 8" and n6: "map real [1..<26] ! 6 = 7"
    by (simp_all add: nth_map)
  have "percentile (map real [1..<26]) 28
          = map real [1..<26] ! nat (max 0 (min (8 - 1) (int 25 - 1)))"
    unfolding percentile_def l Let_def idx by simp
  then have code: "percentile (map real [1..<26]) 28 = 8" using n7 by simp
  have "\<lceil>(28 / 100) * real (25 :: nat)\<rceil> = 7" by (simp add: ceiling_eq_iff)
  then have spec: "map real [1..<26]
       ! nat (max 0 (min (\<lceil>(28 / 100) * real (length (map real [1..<26]))\<rceil> - 1)
                         (int (length (map real [1..<26])) - 1))) = 7"
    unfolding l using n6 by simp
  have c95: "\<lceil>19 / 2 :: real\<rceil> = 10" by (simp add: ceiling_eq_iff)
  have idx95: "\<lceil>fl (fl (95 / 100) * real (10 :: nat))\<rceil> = 10"
    by (simp only: of_nat_numeral fl_95 fl_95_10 c95)
  have l10: "length [1, 2, 3, 4, 5, 6, 7, 8, 9, 10 :: real] = 10" by simp
  have "percentile [1, 2, 3, 4, 5, 6, 7, 8, 9, 10] 95
          = [1, 2, 3, 4, 5, 6, 7, 8, 9, 10] ! nat (max 0 (min (10 - 1) (int 10 - 1)))"
    unfolding percentile_def l10 Let_def idx95 by simp
  then have p95: "percentile [1, 2, 3, 4, 5, 6, 7, 8, 9, 10] 95 = 10" by simp
  show ?thesis using code spec p95 by simp
qed

text \<open>
  C10. In a returned report the mean input tokens, mean output tokens and mean cost
  are sums over all successful requests divided by the number of successful requests;
  a successful request without token usage adds 0 to the sum and still counts in
  the denominator.
\<close>

theorem report_means_over_all_successful:
  "generate_report c = Inr r \<Longrightarrow>
     filter success (metrics c) \<noteq> []
     \<and> mean_input_tokens r
         = real_of_int (\<Sum>m\<leftarrow>filter success (metrics c).
                           case input_tokens m of None \<Rightarrow> 0 | Some t \<Rightarrow> t)
           / real (length (filter success (metrics c)))
     \<and> mean_output_tokens r
         = real_of_int (\<Sum>m\<leftarrow>filter success (metrics c).
                           case output_tokens m of None \<Rightarrow> 0 | Some t \<Rightarrow> t)
           / real (length (filter success (metrics c)))
     \<and> mean_cost r
         = (\<Sum>m\<leftarrow>filter success (metrics c). case cost m of None \<Rightarrow> 0 | Some x \<Rightarrow> x)
           / real (length (filter success (metrics c)))"
proof -
  assume ok: "generate_report c = Inr r"
  have ne: "latencies_of c \<noteq> []"
    using ok by (auto simp: generate_report_def Let_def split: if_splits)
  have succ: "successful_of c \<noteq> []"
    using ne by (auto simp: latencies_of_def List.map_filter_def)
  have oz: "or_zero = (\<lambda>v. case v of None \<Rightarrow> 0 | Some x \<Rightarrow> x)"
    by (rule ext) (simp add: or_zero_def)
  have si: "(\<Sum>x\<leftarrow>xs. real_of_int (f x)) = real_of_int (\<Sum>x\<leftarrow>xs. f x)"
    for xs :: "PerformanceMetric list" and f
    by (induction xs) auto
  have r: "mean_input_tokens r = mean (map real_of_int (map (\<lambda>m. or_zero (input_tokens m)) (successful_of c)))"
     "mean_output_tokens r = mean (map real_of_int (map (\<lambda>m. or_zero (output_tokens m)) (successful_of c)))"
     "mean_cost r = mean (map (\<lambda>m. or_zero (cost m)) (successful_of c))"
    using ok by (auto simp: generate_report_def Let_def split: if_splits)
  show ?thesis
    using succ unfolding r by (simp add: mean_def si successful_of_def oz o_def)
qed

theorem report_means_over_all_successful_witness:
  "\<exists>r. generate_report (record_metric (record_metric new_collector metric_a) metric_b) = Inr r
       \<and> mean_input_tokens r = 50 \<and> mean_output_tokens r = 20 \<and> mean_cost r = 3 / 1000"
proof -
  let ?c = "record_metric (record_metric new_collector metric_a) metric_b"
  have m: "metrics ?c = [metric_a, metric_b]"
    by (simp add: record_metric_def new_collector_def)
  have l: "latencies_of ?c = [10, 20]"
    unfolding latencies_of_def successful_of_def m
    by (simp add: List.map_filter_def metric_a_def metric_b_def)
  obtain r where r: "generate_report ?c = Inr r"
    by (simp add: generate_report_def Let_def m l)
  show ?thesis
    using report_means_over_all_successful [OF r, unfolded m] r
    by (simp add: metric_a_def metric_b_def)
qed

subsection \<open>Metrics aggregator\<close>

lemma get_recent_runs_default:
  "get_recent_runs history 10 = drop (length history - 10) history"
  by (auto simp: get_recent_runs_def py_slice_from_def slice_bound_def nat_diff_distrib' max_def)

lemma get_recent_runs_idem:
  "get_recent_runs (get_recent_runs history 10) 10 = get_recent_runs history 10"
  by (simp add: get_recent_runs_default)

text \<open>
  How \<open>check_for_regressions\<close> picks its baseline: past the length guard it compares
  the latest run with the baseline of the most recent 10 runs (all runs when there
  are fewer), a window whose last element is the latest run itself.
\<close>

lemma check_for_regressions_window:
  "(int (length history) < min_test_runs th + 1 \<longrightarrow> check_for_regressions th history = Inr [])
   \<and> (\<not> int (length history) < min_test_runs th + 1 \<and> history \<noteq> [] \<longrightarrow>
        get_recent_runs history DEFAULT_BASELINE_RUNS = drop (length history - 10) history
        \<and> last (get_recent_runs history DEFAULT_BASELINE_RUNS) = last history
        \<and> calculate_baseline th history DEFAULT_BASELINE_RUNS
            = calculate_baseline th (drop (length history - 10) history) DEFAULT_BASELINE_RUNS
        \<and> check_for_regressions th history
            = (case calculate_baseline th (drop (length history - 10) history)
                      DEFAULT_BASELINE_RUNS of
                 None \<Rightarrow> Inr []
               | Some b \<Rightarrow> compare_with_baseline th (last history) b))"
proof -
  have short: "check_for_regressions th history = Inr []"
    if "int (length history) < min_test_runs th + 1"
    using that by (simp add: check_for_regressions_def)
  have win: "get_recent_runs history DEFAULT_BASELINE_RUNS = drop (length history - 10) history"
    by (simp add: DEFAULT_BASELINE_RUNS_def get_recent_runs_default)
  have lst: "last (get_recent_runs history DEFAULT_BASELINE_RUNS) = last history"
    if "history \<noteq> []"
    using that unfolding win by (simp add: last_drop)
  have base: "calculate_baseline th history DEFAULT_BASELINE_RUNS
            = calculate_baseline th (drop (length history - 10) history) DEFAULT_BASELINE_RUNS"
    using get_recent_runs_idem [of history]
    by (simp add: calculate_baseline_def DEFAULT_BASELINE_RUNS_def get_recent_runs_default)
  have long: "check_for_regressions th history
            = (case calculate_baseline th (drop (length history - 10) history)
                      DEFAULT_BASELINE_RUNS of
                 None \<Rightarrow> Inr []
               | Some b \<Rightarrow> compare_with_baseline th (last history) b)"
    if "\<not> int (length history) < min_test_runs th + 1" "history \<noteq> []"
    using that unfolding base [symmetric] by (simp add: check_for_regressions_def Let_def)
  show ?thesis using short win lst base long by blast
qed

lemma base_dip:
  "calculate_baseline default_thresholds history_dip DEFAULT_BASELINE_RUNS
     = Some \<lparr>period = ''last_10_runs'', test_runs = 4, avg_pass_rate = 1,
             agg_avg_similarity = 97 / 100, agg_avg_latency = 0, trend = ''stable''\<rparr>"
  by (simp add: calculate_baseline_def get_recent_runs_def history_dip_def sample_run_def
      default_thresholds_def DEFAULT_MIN_TEST_RUNS_def DEFAULT_BASELINE_RUNS_def Let_def
      List.map_filter_simps mean_def calculate_trend_def MIN_RUNS_FOR_TREND_def str_int_def
      str_nat.simps)

lemma base_prior:
  "calculate_baseline default_thresholds (butlast history_dip) DEFAULT_BASELINE_RUNS
     = Some prior_baseline"
  by (simp add: calculate_baseline_def get_recent_runs_def history_dip_def sample_run_def
      default_thresholds_def DEFAULT_MIN_TEST_RUNS_def DEFAULT_BASELINE_RUNS_def Let_def
      List.map_filter_simps mean_def calculate_trend_def MIN_RUNS_FOR_TREND_def str_int_def
      str_nat.simps prior_baseline_def)

lemma fmt_fixed_samples:
  "fmt_fixed (Suc 0) 12 = ''12.0''" "fmt_fixed 2 (22 / 25) = ''0.88''" "fmt_fixed 2 1 = ''1.00''"
  by (simp_all add: fmt_fixed_def round_half_even_def Let_def str_nat.simps)

text \<open>
  C1 at a failing input: three runs at similarity 1.0 followed by a run at 0.88, with
  the default thresholds.  The baseline over the three preceding runs is 1.0, and
  comparing the latest run with it gives a warning (a 12 percent drop, past the 10
  percent threshold).  The code's baseline window is the whole history, latest run
  included (mean 0.97, a 9.3 percent drop), and it returns no alert.  The guard asks
  for \<open>min_test_runs + 1\<close> runs: on the three preceding runs alone a baseline exists,
  yet nothing is checked.
\<close>

theorem check_for_regressions_misses_drop:
  "check_for_regressions default_thresholds history_dip = Inr []
   \<and> get_recent_runs history_dip DEFAULT_BASELINE_RUNS = history_dip
   \<and> calculate_baseline default_thresholds (butlast history_dip) DEFAULT_BASELINE_RUNS
       = Some prior_baseline
   \<and> compare_with_baseline default_thresholds (last history_dip) prior_baseline
       = Inr [\<lparr>severity = ''warning'', metric = ''similarity'', current = 88 / 100,
                baseline = 1, percent_change = - 12,
                message = ''Similarity dropped 12.0% (0.88 vs baseline 1.00)'',
                alert_timestamp = 0\<rparr>]
   \<and> check_for_regressions default_thresholds (butlast history_dip) = Inr []"
proof -
  have l: "last history_dip = sample_run (Some (88 / 100))"
    by (simp add: history_dip_def)
  have c: "compare_with_baseline default_thresholds (sample_run (Some (88 / 100)))
     \<lparr>period = ''last_10_runs'', test_runs = 4, avg_pass_rate = 1,
             agg_avg_similarity = 97 / 100, agg_avg_latency = 0, trend = ''stable''\<rparr> = Inr []"
    by (simp add: compare_with_baseline_def similarity_alerts_def latency_alerts_def
        pass_rate_alerts_def sample_run_def default_thresholds_def Let_def
        DEFAULT_SIMILARITY_DROP_THRESHOLD_def DEFAULT_PASS_RATE_DROP_THRESHOLD_def)
  have code: "check_for_regressions default_thresholds history_dip = Inr []"
    unfolding check_for_regressions_def base_dip l Let_def
    using c by (simp add: history_dip_def default_thresholds_def DEFAULT_MIN_TEST_RUNS_def)
  have win: "get_recent_runs history_dip DEFAULT_BASELINE_RUNS = history_dip"
    by (simp add: get_recent_runs_def DEFAULT_BASELINE_RUNS_def history_dip_def)
  have p: "compare_with_baseline default_thresholds (sample_run (Some (88 / 100))) prior_baseline
        = Inr [\<lparr>severity = ''warning'', metric = ''similarity'', current = 88 / 100,
                 baseline = 1, percent_change = - 12,
                 message = ''Similarity dropped 12.0% (0.88 vs baseline 1.00)'',
                 alert_timestamp = 0\<rparr>]"
    by (simp add: compare_with_baseline_def similarity_alerts_def latency_alerts_def
        pass_rate_alerts_def sample_run_def default_thresholds_def Let_def prior_baseline_def
        DEFAULT_SIMILARITY_DROP_THRESHOLD_def DEFAULT_PASS_RATE_DROP_THRESHOLD_def
        CRITICAL_SIMILARITY_DROP_THRESHOLD_def fmt_fixed_samples)
  have guard: "check_for_regressions default_thresholds (butlast history_dip) = Inr []"
    by (simp add: check_for_regressions_def history_dip_def default_thresholds_def
        DEFAULT_MIN_TEST_RUNS_def)
  show ?thesis using code win p base_prior guard by (simp only: l simp_thms)
qed

text \<open>
  C8 at a failing input: five runs with similarities 0, 0, 0.5, 0.5, 0.5.  Both halves
  carry similarity data and the second half's mean exceeds the first's by 0.5, yet the
  classification is \<open>stable\<close>, because a mean of exactly zero is taken for missing data.
\<close>

theorem calculate_trend_zero_mean_stable:
  "calculate_trend history_zero_start = ''stable''
   \<and> List.map_filter avg_similarity (take (length history_zero_start div 2) history_zero_start)
       = [0, 0]
   \<and> List.map_filter avg_similarity (drop (length history_zero_start div 2) history_zero_start)
       = [1 / 2, 1 / 2, 1 / 2]
   \<and> mean [1 / 2, 1 / 2, 1 / 2] - mean [0, 0] > 5 / 100"
  by (simp add: calculate_trend_def history_zero_start_def sample_run_def Let_def
      MIN_RUNS_FOR_TREND_def List.map_filter_simps mean_def)

subsection \<open>Text similarity metrics\<close>

text \<open>
  C6 at a failing input: the tokenizer keeps the underscore, which is a word character
  for \<open>\w\<close> but is not alphanumeric, so the token \<open>a_b\<close> is returned whole.
\<close>

theorem tokenize_keeps_underscore:
  "tokenize ''a_b'' = [''a_b''] \<and> \<not> is_alnum (CHR ''_'') \<and> CHR ''_'' \<in> set (hd (tokenize ''a_b''))"
  by (simp add: tokenize_def lower_def lower_char_def is_word_def is_alnum_def is_space_def
      py_split_def)

text \<open>
  C9. The Jaccard similarity never exceeds the overlap coefficient; this holds for all
  texts, in particular for those that tokenize to non-empty lists.
\<close>

theorem jaccard_le_overlap:
  "jaccard_similarity a b \<le> overlap_coefficient a b"
proof -
  let ?A = "set (tokenize a)" and ?B = "set (tokenize b)"
  have fin: "finite ?A" "finite ?B" by simp_all
  show ?thesis
  proof (cases "min (card ?A) (card ?B) = 0")
    case True
    then have "?A = {} \<or> ?B = {}"
      using fin by (auto simp: min_def split: if_splits)
    then have "?A \<inter> ?B = {}" by auto
    then show ?thesis
      using True by (simp add: jaccard_similarity_def overlap_coefficient_def Let_def)
  next
    case False
    have "card ?A \<le> card (?A \<union> ?B)" "card ?B \<le> card (?A \<union> ?B)"
      using fin by (auto intro: card_mono)
    then have le: "min (card ?A) (card ?B) \<le> card (?A \<union> ?B)" by linarith
    have pos: "0 < min (card ?A) (card ?B)" using False by simp
    have "real (card (?A \<inter> ?B)) / real (card (?A \<union> ?B))
            \<le> real (card (?A \<inter> ?B)) / real (min (card ?A) (card ?B))"
      using le pos by (intro divide_left_mono) auto
    moreover have u0: "card (?A \<union> ?B) \<noteq> 0" using le pos by linarith
    ultimately show ?thesis
      unfolding jaccard_similarity_def overlap_coefficient_def Let_def
      using False by (simp only: if_False)
  qed
qed

lemma tokenize_customer_issue: "tokenize ''customer issue'' = [''customer'', ''issue'']"
  by (simp add: tokenize_def lower_def lower_char_def is_word_def is_alnum_def is_space_def
      py_split_def)

lemma tokenize_issue_fixed: "tokenize ''issue fixed now'' = [''issue'', ''fixed'', ''now'']"
  by (simp add: tokenize_def lower_def lower_char_def is_word_def is_alnum_def is_space_def
      py_split_def)

theorem jaccard_le_overlap_witness:
  "jaccard_similarity ''customer issue'' ''issue fixed now'' = 1 / 4
   \<and> overlap_coefficient ''customer issue'' ''issue fixed now'' = 1 / 2"
proof -
  have i: "set [''customer'', ''issue''] \<inter> set [''issue'', ''fixed'', ''now''] = {''issue''}"
    by auto
  have u: "card (set [''customer'', ''issue''] \<union> set [''issue'', ''fixed'', ''now'']) = 4"
    by (simp add: card_insert_if)
  have c: "card (set [''customer'', ''issue'']) = 2" "card (set [''issue'', ''fixed'', ''now'']) = 3"
    by (simp_all add: card_insert_if)
  have j: "jaccard_similarity ''customer issue'' ''issue fixed now'' = 1 / 4"
    unfolding jaccard_similarity_def Let_def tokenize_customer_issue tokenize_issue_fixed i u
    by simp
  have o: "overlap_coefficient ''customer issue'' ''issue fixed now'' = 1 / 2"
    unfolding overlap_coefficient_def Let_def tokenize_customer_issue tokenize_issue_fixed i c
    by simp
  show ?thesis
    using jaccard_le_overlap [of "''customer issue''" "''issue fixed now''"] j o by simp
qed

lemma counts_of_empty: "counts_of Map.empty {#}"
  by (simp add: counts_of_def)

lemma counts_of_bump:
  assumes "counts_of m M"
  shows "counts_of (m(k \<mapsto> (case m k of None \<Rightarrow> 0 | Some c \<Rightarrow> c) + 1)) (add_mset k M)"
  using assms by (auto simp: counts_of_def split: option.splits)

lemma count_into_counts:
  "counts_of m M \<Longrightarrow> counts_of (count_into m ngs) (M + mset (map (join '' '') ngs))"
proof (induction ngs arbitrary: m M)
  case Nil
  then show ?case by simp
next
  case (Cons g ngs)
  from counts_of_bump [OF Cons.prems, of "join '' '' g"]
  have "counts_of (count_into (m(join '' '' g \<mapsto>
            (case m (join '' '' g) of None \<Rightarrow> 0 | Some c \<Rightarrow> c) + 1)) ngs)
          (add_mset (join '' '' g) M + mset (map (join '' '') ngs))"
    by (rule Cons.IH)
  then show ?case by (simp add: Let_def)
qed

lemma count_ngrams_counts: "counts_of (count_ngrams ngs) (mset (map (join '' '') ngs))"
  using count_into_counts [OF counts_of_empty, of ngs] by (simp add: count_ngrams_def)

lemma counts_of_absent: "counts_of m M \<Longrightarrow> m k = None \<Longrightarrow> k \<notin># M"
  by (auto simp: counts_of_def not_in_iff dest: spec [of _ k])

lemma counts_of_nonpos: "counts_of m M \<Longrightarrow> m k = Some c \<Longrightarrow> \<not> 0 < c \<Longrightarrow> k \<notin># M"
  by (auto simp: counts_of_def not_in_iff dest!: spec [of _ k])

lemma counts_of_pos: "counts_of m M \<Longrightarrow> m k = Some c \<Longrightarrow> 0 < c \<Longrightarrow> k \<in># M"
  by (auto simp: counts_of_def count_greater_zero_iff [symmetric] simp del: count_greater_zero_iff
      dest!: spec [of _ k])

lemma counts_of_consume:
  assumes "counts_of m M" "m k = Some c" "0 < c"
  shows "counts_of (m(k \<mapsto> c - 1)) (M - {#k#})"
proof -
  have "k \<in># M" using assms by (rule counts_of_pos)
  then have "1 \<le> count M k" by simp
  moreover have "c = int (count M k)"
    using assms(1,2) by (auto simp: counts_of_def dest!: spec [of _ k])
  ultimately show ?thesis
    using assms(1) by (auto simp: counts_of_def split: option.splits)
qed

lemma match_loop_size:
  "counts_of m M \<Longrightarrow>
     match_loop ngs k m = k + int (size (mset (map (join '' '') ngs) \<inter># M))"
proof (induction ngs arbitrary: k m M)
  case Nil
  then show ?case by simp
next
  case (Cons g ngs)
  let ?key = "join '' '' g"
  let ?K = "mset (map (join '' '') ngs)"
  show ?case
  proof (cases "m ?key")
    case None
    then have "?key \<notin># M" using Cons.prems by (auto dest: counts_of_absent)
    then have "size (mset (map (join '' '') (g # ngs)) \<inter># M) = size (?K \<inter># M)"
      by (simp add: inter_add_left1)
    moreover have "match_loop (g # ngs) k m = match_loop ngs k m"
      using None by (simp add: Let_def)
    ultimately show ?thesis using Cons.IH [OF Cons.prems, of k] by simp
  next
    case (Some c)
    show ?thesis
    proof (cases "0 < c")
      case True
      have in_M: "?key \<in># M" using Cons.prems Some True by (rule counts_of_pos)
      have "counts_of (m(?key \<mapsto> c - 1)) (M - {#?key#})"
        using Cons.prems Some True by (rule counts_of_consume)
      then have ih: "match_loop ngs (k + 1) (m(?key \<mapsto> c - 1))
                   = (k + 1) + int (size (?K \<inter># (M - {#?key#})))"
        by (rule Cons.IH)
      have step: "match_loop (g # ngs) k m = match_loop ngs (k + 1) (m(?key \<mapsto> c - 1))"
        using Some True by (simp add: Let_def)
      have "size (mset (map (join '' '') (g # ngs)) \<inter># M)
              = Suc (size (?K \<inter># (M - {#?key#})))"
        using in_M by (simp add: inter_add_left2)
      then show ?thesis unfolding step ih by simp
    next
      case False
      then have "?key \<notin># M" using Cons.prems Some by (auto dest: counts_of_nonpos)
      then have "size (mset (map (join '' '') (g # ngs)) \<inter># M) = size (?K \<inter># M)"
        by (simp add: inter_add_left1)
      moreover have "match_loop (g # ngs) k m = match_loop ngs k m"
        using Some False by (simp add: Let_def)
      ultimately show ?thesis using Cons.IH [OF Cons.prems, of k] by simp
    qed
  qed
qed

lemma inter_image_mset_inj_on:
  "inj_on f (set_mset A \<union> set_mset B) \<Longrightarrow>
     image_mset f A \<inter># image_mset f B = image_mset f (A \<inter># B)"
proof (induction A arbitrary: B)
  case empty
  then show ?case by simp
next
  case (add x A)
  show ?case
  proof (cases "x \<in># B")
    case True
    then obtain B' where B: "B = add_mset x B'" by (meson mset_add)
    have "inj_on f (set_mset A \<union> set_mset B')"
      using add.prems unfolding B by (auto intro: inj_on_subset)
    from add.IH [OF this] show ?thesis unfolding B by simp
  next
    case False
    have "f x \<notin># image_mset f B"
    proof
      assume "f x \<in># image_mset f B"
      then obtain y where y: "y \<in># B" "f x = f y" by auto
      then have "x = y" using add.prems by (auto dest: inj_onD)
      then show False using y False by simp
    qed
    moreover have "inj_on f (set_mset A \<union> set_mset B)"
      using add.prems by (auto intro: inj_on_subset)
    ultimately show ?thesis
      using False add.IH [of B] by (simp add: inter_add_left1)
  qed
qed

lemma join_Cons: "join sep (x # xs) = x @ (if xs = [] then [] else sep @ join sep xs)"
  by (cases xs) simp_all

lemma join_clean_eq_Nil: "list_all clean_token xs \<Longrightarrow> join '' '' xs = [] \<Longrightarrow> xs = []"
  by (cases xs) (auto simp: join_Cons clean_token_def)

lemma split_at_blank:
  assumes "CHR '' '' \<notin> set x" "CHR '' '' \<notin> set y"
    and "x @ r = y @ s"
    and "r = [] \<or> hd r = CHR '' ''" "s = [] \<or> hd s = CHR '' ''"
  shows "x = y \<and> r = s"
proof -
  have tw: "takeWhile (\<lambda>c. c \<noteq> CHR '' '') (u @ t) = u"
    if u: "CHR '' '' \<notin> set u" and t: "t = [] \<or> hd t = CHR '' ''" for u t :: string
  proof -
    have "takeWhile (\<lambda>c. c \<noteq> CHR '' '') t = []"
      using t by (cases t) auto
    moreover have "takeWhile (\<lambda>c. c \<noteq> CHR '' '') (u @ t)
                     = u @ takeWhile (\<lambda>c. c \<noteq> CHR '' '') t"
      using u by (intro takeWhile_append2) auto
    ultimately show ?thesis by simp
  qed
  have "x = takeWhile (\<lambda>c. c \<noteq> CHR '' '') (x @ r)" using tw [OF assms(1,4)] by simp
  also have "\<dots> = y" unfolding assms(3) using tw [OF assms(2,5)] by simp
  finally have "x = y" .
  then show ?thesis using assms(3) by simp
qed

lemma join_clean_inj:
  "list_all clean_token xs \<Longrightarrow> list_all clean_token ys \<Longrightarrow>
     join '' '' xs = join '' '' ys \<Longrightarrow> xs = ys"
proof (induction xs arbitrary: ys)
  case Nil
  then show ?case using join_clean_eq_Nil [of ys] by simp
next
  case (Cons x xs)
  show ?case
  proof (cases ys)
    case Nil
    then show ?thesis using Cons.prems join_clean_eq_Nil [of "x # xs"] by simp
  next
    case (Cons y ys')
    let ?r = "if xs = [] then [] else '' '' @ join '' '' xs"
    let ?s = "if ys' = [] then [] else '' '' @ join '' '' ys'"
    have cx: "CHR '' '' \<notin> set x" and cy: "CHR '' '' \<notin> set y"
      using Cons.prems(1,2) Cons by (simp_all add: clean_token_def)
    have eq: "x @ ?r = y @ ?s"
      using Cons.prems(3) unfolding Cons join_Cons .
    have "x = y \<and> ?r = ?s"
      by (rule split_at_blank [OF cx cy eq]) auto
    then have xy: "x = y" and rs: "?r = ?s" by simp_all
    have "xs = ys'"
    proof (cases "xs = []")
      case True
      then show ?thesis using rs by (auto split: if_splits)
    next
      case False
      then have "ys' \<noteq> []" and "join '' '' xs = join '' '' ys'"
        using rs by (auto split: if_splits)
      then show ?thesis
        using Cons.IH [of ys'] Cons.prems(1,2) Cons by simp
    qed
    then show ?thesis using xy Cons by simp
  qed
qed

lemma split_from_clean:
  "\<forall>c \<in> set cur. \<not> is_space c \<Longrightarrow>
     \<forall>t \<in> set (split_from cur s). t \<noteq> [] \<and> (\<forall>c \<in> set t. \<not> is_space c)"
proof (induction s arbitrary: cur)
  case Nil
  then show ?case by simp
next
  case (Cons c cs)
  show ?case
  proof (cases "is_space c")
    case True
    have "\<forall>t \<in> set (split_from [] cs). t \<noteq> [] \<and> (\<forall>c \<in> set t. \<not> is_space c)"
      by (rule Cons.IH) simp
    then show ?thesis using True Cons.prems by simp
  next
    case False
    have "\<forall>t \<in> set (split_from (cur @ [c]) cs). t \<noteq> [] \<and> (\<forall>c \<in> set t. \<not> is_space c)"
      by (rule Cons.IH) (use False Cons.prems in simp)
    then show ?thesis using False by simp
  qed
qed

lemma is_space_blank: "is_space (CHR '' '')"
  by (simp add: is_space_def)

lemma tokenize_clean: "list_all clean_token (tokenize text)"
proof -
  have "\<forall>t \<in> set (py_split s). t \<noteq> [] \<and> (\<forall>c \<in> set t. \<not> is_space c)" for s
    unfolding py_split_def by (rule split_from_clean) simp
  then have "\<forall>t \<in> set (py_split s). clean_token t" for s
    using is_space_blank unfolding clean_token_def by blast
  then show ?thesis
    unfolding tokenize_def Let_def list_all_iff by auto
qed

lemma py_slice_subset: "set (py_slice xs a b) \<subseteq> set xs"
proof -
  have "set (take k (drop j xs)) \<subseteq> set xs" for k j
    using set_take_subset [of k "drop j xs"] set_drop_subset [of j xs] by (rule subset_trans)
  then show ?thesis unfolding py_slice_def Let_def .
qed

lemma get_ngrams_clean:
  assumes "list_all clean_token tokens"
  shows "\<forall>g \<in> set (get_ngrams tokens n). list_all clean_token g"
proof
  fix g assume "g \<in> set (get_ngrams tokens n)"
  then obtain i where "g = py_slice tokens (int i) (int i + n)"
    unfolding get_ngrams_def by auto
  then have "set g \<subseteq> set tokens" using py_slice_subset by simp
  then show "list_all clean_token g"
    using assms unfolding list_all_iff by blast
qed

lemma ngram_keys_inter:
  "size (mset (map (join '' '') (get_ngrams (tokenize c) n))
          \<inter># mset (map (join '' '') (get_ngrams (tokenize r) n)))
   = size (mset (get_ngrams (tokenize c) n) \<inter># mset (get_ngrams (tokenize r) n))"
proof -
  let ?C = "get_ngrams (tokenize c) n" and ?R = "get_ngrams (tokenize r) n"
  have "inj_on (join '' '') (set ?C \<union> set ?R)"
  proof (rule inj_onI)
    fix g h assume "g \<in> set ?C \<union> set ?R" "h \<in> set ?C \<union> set ?R"
      and "join '' '' g = join '' '' h"
    moreover have "\<forall>g \<in> set ?C \<union> set ?R. list_all clean_token g"
      using get_ngrams_clean [OF tokenize_clean] by blast
    ultimately show "g = h" by (blast intro: join_clean_inj)
  qed
  then have "image_mset (join '' '') (mset ?C) \<inter># image_mset (join '' '') (mset ?R)
               = image_mset (join '' '') (mset ?C \<inter># mset ?R)"
    by (intro inter_image_mset_inj_on) simp
  then show ?thesis by (metis mset_map size_image_mset)
qed

lemma tokenize_empty: "tokenize [] = []"
  by (simp add: tokenize_def lower_def py_split_def)

text \<open>
  C7. For every reference and candidate and every n-gram size \<open>n \<ge> 1\<close>, the empty
  candidate yields no n-grams and \<open>ngram_precision\<close> returns 0 for it.  For every \<open>n\<close>,
  a candidate yields no n-grams exactly when it has fewer than \<open>n\<close> tokens, the
  precision is then 0, and otherwise it is the number of matches divided by the number
  of candidate n-grams, where the matches are the multiset intersection of the
  candidate's and the reference's n-grams: each n-gram is matched at most as often
  as it occurs in the reference.
\<close>

theorem ngram_precision_consumption:
  "(get_ngrams (tokenize candidate) n = [] \<longrightarrow> ngram_precision reference candidate n = 0)
   \<and> (get_ngrams (tokenize candidate) n \<noteq> [] \<longrightarrow>
        ngram_precision reference candidate n
          = real (size (mset (get_ngrams (tokenize candidate) n)
                         \<inter># mset (get_ngrams (tokenize reference) n)))
            / real (length (get_ngrams (tokenize candidate) n)))
   \<and> (1 \<le> n \<longrightarrow> get_ngrams (tokenize []) n = [] \<and> ngram_precision reference [] n = 0)
   \<and> (get_ngrams (tokenize candidate) n = [] \<longleftrightarrow> int (length (tokenize candidate)) < n)"
proof -
  let ?C = "get_ngrams (tokenize candidate) n" and ?R = "get_ngrams (tokenize reference) n"
  have short: "?C = [] \<longleftrightarrow> int (length (tokenize candidate)) < n"
    by (auto simp: get_ngrams_def)
  have none: "ngram_precision reference c n = 0" if "get_ngrams (tokenize c) n = []" for c
    using that by (simp add: ngram_precision_def Let_def)
  have "match_loop ?C 0 (count_ngrams ?R)
          = int (size (mset (map (join '' '') ?C) \<inter># mset (map (join '' '') ?R)))"
    using match_loop_size [OF count_ngrams_counts, of ?C 0 ?R] by simp
  then have m: "match_loop ?C 0 (count_ngrams ?R) = int (size (mset ?C \<inter># mset ?R))"
    by (simp only: ngram_keys_inter)
  have some: "ngram_precision reference candidate n
          = real (size (mset ?C \<inter># mset ?R)) / real (length ?C)" if "?C \<noteq> []"
    using that by (simp add: ngram_precision_def Let_def m)
  have empty: "get_ngrams (tokenize []) n = []" if "1 \<le> n"
    using that by (simp add: get_ngrams_def tokenize_empty)
  show ?thesis using none [of candidate] some empty none [of "[]"] short by blast
qed

lemma tokenize_the_cat: "tokenize ''the cat'' = [''the'', ''cat'']"
  by (simp add: tokenize_def lower_def lower_char_def is_word_def is_alnum_def is_space_def
      py_split_def)

lemma tokenize_the_the_the: "tokenize ''the the the'' = [''the'', ''the'', ''the'']"
  by (simp add: tokenize_def lower_def lower_char_def is_word_def is_alnum_def is_space_def
      py_split_def)

theorem ngram_precision_consumption_witness:
  "ngram_precision ''the cat'' ''the the the'' 1 = 1 / 3
   \<and> ngram_precision ''the cat'' [] 1 = 0
   \<and> ngram_precision ''the cat'' ''the cat'' 3 = 0"
proof -
  have c: "get_ngrams (tokenize ''the the the'') 1 = [[''the''], [''the''], [''the'']]"
    unfolding tokenize_the_the_the
    by (simp add: get_ngrams_def py_slice_def slice_bound_def upt_rec)
  have r: "get_ngrams (tokenize ''the cat'') 1 = [[''the''], [''cat'']]"
    unfolding tokenize_the_cat
    by (simp add: get_ngrams_def py_slice_def slice_bound_def upt_rec)
  have z: "get_ngrams (tokenize ''the cat'') 3 = []"
    unfolding tokenize_the_cat by (simp add: get_ngrams_def)
  have i: "mset [[''the''], [''the''], [''the'']] \<inter># mset [[''the''], [''cat'']] = {#[''the'']#}"
    by simp
  show ?thesis
    using ngram_precision_consumption [of "''the the the''" 1 "''the cat''"]
      ngram_precision_consumption [of "[]" 1 "''the cat''"]
      ngram_precision_consumption [of "''the cat''" 3 "''the cat''"]
    unfolding c r z i by simp
qed

subsection \<open>Summary evaluator\<close>

lemma length_filter_eq_iff: "length (filter P xs) = length xs \<longleftrightarrow> (\<forall>x \<in> set xs. P x)"
proof -
  have "length (filter P xs) = length xs \<longleftrightarrow> filter (\<lambda>x. \<not> P x) xs = []"
    using sum_length_filter_compl [of P xs] by auto
  then show ?thesis by (simp add: filter_empty_conv)
qed

lemma rt_passed_iff:
  "rt_passed (contains_required_terms text required)
     \<longleftrightarrow> (\<forall>t \<in> set required. search_whole_word (lower t) (lower text))"
proof (cases "required = []")
  case True
  then show ?thesis by (simp add: contains_required_terms_def)
next
  case False
  then have "rt_passed (contains_required_terms text required)
      \<longleftrightarrow> length (filter (\<lambda>t. search_whole_word (lower t) (lower text)) required)
            = length required"
    by (simp add: contains_required_terms_def Let_def)
  then show ?thesis by (simp only: length_filter_eq_iff)
qed

lemma missing_eq:
  "missing (contains_required_terms text required)
     = filter (\<lambda>t. \<not> search_whole_word (lower t) (lower text)) required"
  by (cases "required = []") (simp_all add: contains_required_terms_def Let_def)

text \<open>
  C2. \<open>evaluate\<close> returns a result whenever the length bounds are well-formed.  In
  every returned result, \<open>passed\<close> holds exactly when the failure list is empty, and
  exactly when the composite similarity of the summary and the golden summary is not
  below its threshold, the summary's token count is within its bounds and every
  required term is found in the summary (the BLEU score plays no part).  The failure
  list is the similarity message, then the length message, then the required-terms
  message, each present exactly when its own check on the summary fails; the
  result's fields are the values of those checks.
\<close>

theorem evaluate_passed_and_failure_order:
  "(0 \<le> min_length_words (thresholds tc) \<and> 0 \<le> max_length_words (thresholds tc)
      \<and> min_length_words (thresholds tc) \<le> max_length_words (thresholds tc)
      \<longrightarrow> (\<exists>r. evaluate summary tc = Inr r))
   \<and> (\<forall>r. evaluate summary tc = Inr r \<longrightarrow>
         (passed r \<longleftrightarrow> failures r = [])
         \<and> (passed r \<longleftrightarrow>
               \<not> composite_similarity summary (golden_summary tc)
                     < min_semantic_similarity (thresholds tc)
               \<and> min_length_words (thresholds tc) \<le> int (length (tokenize summary))
               \<and> int (length (tokenize summary)) \<le> max_length_words (thresholds tc)
               \<and> (\<forall>t \<in> set (thr_required_terms (thresholds tc)).
                     search_whole_word (lower t) (lower summary)))
         \<and> failures r =
             (if composite_similarity summary (golden_summary tc)
                   < min_semantic_similarity (thresholds tc)
              then [''Similarity ''
                    @ fmt_fixed 2 (composite_similarity summary (golden_summary tc))
                    @ '' below threshold ''
                    @ fmt_fixed 2 (min_semantic_similarity (thresholds tc))]
              else [])
             @ (if \<not> (min_length_words (thresholds tc) \<le> int (length (tokenize summary))
                      \<and> int (length (tokenize summary)) \<le> max_length_words (thresholds tc))
                then [''Length '' @ str_int (int (length (tokenize summary)))
                      @ '' words outside range [''
                      @ str_int (min_length_words (thresholds tc)) @ '', ''
                      @ str_int (max_length_words (thresholds tc)) @ '']'']
                else [])
             @ (if \<not> (\<forall>t \<in> set (thr_required_terms (thresholds tc)).
                        search_whole_word (lower t) (lower summary))
                then [''Missing required terms: ''
                      @ join '', ''
                          (filter (\<lambda>t. \<not> search_whole_word (lower t) (lower summary))
                             (thr_required_terms (thresholds tc)))]
                else [])
         \<and> similarity r = composite_similarity summary (golden_summary tc)
         \<and> bleu r = bleu_score summary (golden_summary tc)
         \<and> length_check r =
             \<lparr>lc_passed =
                (min_length_words (thresholds tc) \<le> int (length (tokenize summary))
                 \<and> int (length (tokenize summary)) \<le> max_length_words (thresholds tc)),
              word_count = int (length (tokenize summary))\<rparr>
         \<and> required_terms r
             = contains_required_terms summary (thr_required_terms (thresholds tc)))"
proof -
  let ?thr = "thresholds tc"
  let ?sim = "composite_similarity summary (golden_summary tc)"
  let ?wc = "int (length (tokenize summary))"
  let ?inb = "min_length_words ?thr \<le> ?wc \<and> ?wc \<le> max_length_words ?thr"
  let ?found = "\<lambda>t. search_whole_word (lower t) (lower summary)"
  let ?rt = "contains_required_terms summary (thr_required_terms ?thr)"
  let ?F = "(if ?sim < min_semantic_similarity ?thr
              then [''Similarity '' @ fmt_fixed 2 ?sim @ '' below threshold ''
                    @ fmt_fixed 2 (min_semantic_similarity ?thr)]
              else [])
             @ (if \<not> ?inb
                then [''Length '' @ str_int ?wc @ '' words outside range [''
                      @ str_int (min_length_words ?thr) @ '', ''
                      @ str_int (max_length_words ?thr) @ '']'']
                else [])
             @ (if \<not> (\<forall>t \<in> set (thr_required_terms ?thr). ?found t)
                then [''Missing required terms: ''
                      @ join '', '' (filter (\<lambda>t. \<not> ?found t) (thr_required_terms ?thr))]
                else [])"
  have total: "\<exists>r. evaluate summary tc = Inr r"
    if "0 \<le> min_length_words ?thr" "0 \<le> max_length_words ?thr"
       "min_length_words ?thr \<le> max_length_words ?thr"
    using that by (simp add: evaluate_def validate_length_def Let_def)
  have props: "(passed r \<longleftrightarrow> failures r = [])
         \<and> (passed r \<longleftrightarrow> \<not> ?sim < min_semantic_similarity ?thr \<and> ?inb
               \<and> (\<forall>t \<in> set (thr_required_terms ?thr). ?found t))
         \<and> failures r = ?F
         \<and> similarity r = ?sim
         \<and> bleu r = bleu_score summary (golden_summary tc)
         \<and> length_check r = \<lparr>lc_passed = ?inb, word_count = ?wc\<rparr>
         \<and> required_terms r = ?rt"
    if ok: "evaluate summary tc = Inr r" for r
  proof -
    obtain lc where lc: "validate_length summary (min_length_words ?thr) (max_length_words ?thr)
                           = Inr lc"
      using ok by (auto simp: evaluate_def Let_def split: sum.splits)
    have lcv: "lc = \<lparr>lc_passed = ?inb, word_count = ?wc\<rparr>"
      using lc by (auto simp: validate_length_def Let_def split: if_splits)
    have lcp: "lc_passed lc \<longleftrightarrow> ?inb" and wc: "word_count lc = ?wc"
      unfolding lcv by simp_all
    have r: "similarity r = ?sim" "length_check r = lc" "required_terms r = ?rt"
            "bleu r = bleu_score summary (golden_summary tc)"
      using ok lc by (auto simp: evaluate_def Let_def)
    have f0: "failures r =
             (if ?sim < min_semantic_similarity ?thr
              then [''Similarity '' @ fmt_fixed 2 ?sim @ '' below threshold ''
                    @ fmt_fixed 2 (min_semantic_similarity ?thr)]
              else [])
             @ (if \<not> lc_passed lc
                then [''Length '' @ str_int (word_count lc)
                      @ '' words outside range [''
                      @ str_int (min_length_words ?thr) @ '', ''
                      @ str_int (max_length_words ?thr) @ '']'']
                else [])
             @ (if \<not> rt_passed ?rt
                then [''Missing required terms: '' @ join '', '' (missing ?rt)]
                else [])"
      using ok lc by (auto simp: evaluate_def Let_def)
    have f: "failures r = ?F"
      unfolding f0 lcp wc rt_passed_iff missing_eq ..
    have p: "passed r \<longleftrightarrow> failures r = []"
      using ok lc by (auto simp: evaluate_def Let_def)
    have e: "failures r = [] \<longleftrightarrow>
               \<not> ?sim < min_semantic_similarity ?thr \<and> ?inb
               \<and> (\<forall>t \<in> set (thr_required_terms ?thr). ?found t)"
      unfolding f by simp
    show ?thesis
      using p e f r(1,3,4) r(2) [unfolded lcv] by simp
  qed
  show ?thesis using total props by blast
qed

lemma tokenize_scenario:
  "tokenize ''Customer reset password successfully''
     = [''customer'', ''reset'', ''password'', ''successfully'']"
  by code_simp

lemma tokenize_short: "tokenize ''Short'' = [''short'']"
  by code_simp

lemma similarity_scenario:
  "composite_similarity ''Customer reset password successfully''
     ''Customer reset password successfully'' = 1"
proof -
  let ?w = "[''customer'', ''reset'', ''password'', ''successfully'']"
  have c: "card (set ?w) = 4" by (simp add: card_insert_if)
  have cos: "cosine_similarity ''Customer reset password successfully''
     ''Customer reset password successfully'' = 1"
    unfolding cosine_similarity_def tokenize_scenario Let_def by simp
  have jac: "jaccard_similarity ''Customer reset password successfully''
     ''Customer reset password successfully'' = 1"
    unfolding jaccard_similarity_def tokenize_scenario Let_def Int_absorb Un_absorb c by simp
  have ov: "overlap_coefficient ''Customer reset password successfully''
     ''Customer reset password successfully'' = 1"
    unfolding overlap_coefficient_def tokenize_scenario Let_def Int_absorb c by simp
  show ?thesis unfolding composite_similarity_def cos jac ov by simp
qed

lemma similarity_short:
  "composite_similarity ''Short'' ''Customer reset password successfully'' = 0"
proof -
  have i: "set [''short''] \<inter> set [''customer'', ''reset'', ''password'', ''successfully''] = {}"
    by simp
  have cos: "cosine_similarity ''Short'' ''Customer reset password successfully'' = 0"
    unfolding cosine_similarity_def tokenize_scenario tokenize_short Let_def by simp
  have jac: "jaccard_similarity ''Short'' ''Customer reset password successfully'' = 0"
    unfolding jaccard_similarity_def tokenize_scenario tokenize_short Let_def i by simp
  have ov: "overlap_coefficient ''Short'' ''Customer reset password successfully'' = 0"
    unfolding overlap_coefficient_def tokenize_scenario tokenize_short Let_def i by simp
  show ?thesis unfolding composite_similarity_def cos jac ov by simp
qed

lemma terms_scenario:
  "search_whole_word (lower ''password'') (lower ''Customer reset password successfully'')"
  "search_whole_word (lower ''reset'') (lower ''Customer reset password successfully'')"
  by code_simp+

lemma terms_short:
  "\<not> search_whole_word (lower ''password'') (lower ''Short'')"
  "\<not> search_whole_word (lower ''reset'') (lower ''Short'')"
  by code_simp+

theorem evaluate_passed_and_failure_order_witness:
  "(\<exists>r. evaluate ''Customer reset password successfully'' password_case = Inr r
        \<and> passed r \<and> failures r = [])
   \<and> (\<exists>r. evaluate ''Short'' password_case = Inr r
        \<and> \<not> passed r
        \<and> failures r = [''Similarity 0.00 below threshold 0.80'',
                         ''Length 1 words outside range [3, 10]'',
                         ''Missing required terms: password, reset''])"
proof -
  have th: "thresholds password_case =
       \<lparr>min_semantic_similarity = 80 / 100, min_length_words = 3, max_length_words = 10,
        thr_required_terms = [''password'', ''reset'']\<rparr>"
       "golden_summary password_case = ''Customer reset password successfully''"
    by (simp_all add: password_case_def)
  note a = evaluate_passed_and_failure_order [of password_case "''Customer reset password successfully''"]
  note b = evaluate_passed_and_failure_order [of password_case "''Short''"]
  obtain r1 where r1: "evaluate ''Customer reset password successfully'' password_case = Inr r1"
    using a by (auto simp: th)
  have "passed r1 \<longleftrightarrow>
          \<not> composite_similarity ''Customer reset password successfully''
                (golden_summary password_case)
              < min_semantic_similarity (thresholds password_case)
          \<and> min_length_words (thresholds password_case)
              \<le> int (length (tokenize ''Customer reset password successfully''))
          \<and> int (length (tokenize ''Customer reset password successfully''))
              \<le> max_length_words (thresholds password_case)
          \<and> (\<forall>t \<in> set (thr_required_terms (thresholds password_case)).
                search_whole_word (lower t) (lower ''Customer reset password successfully''))"
    using a r1 by blast
  then have p1: "passed r1"
    using terms_scenario by (simp add: th similarity_scenario tokenize_scenario)
  have "passed r1 \<longleftrightarrow> failures r1 = []" using a r1 by blast
  then have f1: "failures r1 = []" using p1 by simp
  obtain r2 where r2: "evaluate ''Short'' password_case = Inr r2"
    using b by (auto simp: th)
  have fm: "fmt_fixed 2 0 = ''0.00''" "fmt_fixed 2 (4 / 5) = ''0.80''"
    by (simp_all add: fmt_fixed_def round_half_even_def Let_def str_nat.simps)
  have si: "str_int 1 = ''1''" "str_int 3 = ''3''" "str_int 10 = ''10''"
    by (simp_all add: str_int_def str_nat.simps)
  have "failures r2 =
             (if composite_similarity ''Short'' (golden_summary password_case)
                   < min_semantic_similarity (thresholds password_case)
              then [''Similarity ''
                    @ fmt_fixed 2 (composite_similarity ''Short'' (golden_summary password_case))
                    @ '' below threshold ''
                    @ fmt_fixed 2 (min_semantic_similarity (thresholds password_case))]
              else [])
             @ (if \<not> (min_length_words (thresholds password_case)
                        \<le> int (length (tokenize ''Short''))
                      \<and> int (length (tokenize ''Short''))
                        \<le> max_length_words (thresholds password_case))
                then [''Length '' @ str_int (int (length (tokenize ''Short'')))
                      @ '' words outside range [''
                      @ str_int (min_length_words (thresholds password_case)) @ '', ''
                      @ str_int (max_length_words (thresholds password_case)) @ '']'']
                else [])
             @ (if \<not> (\<forall>t \<in> set (thr_required_terms (thresholds password_case)).
                        search_whole_word (lower t) (lower ''Short''))
                then [''Missing required terms: ''
                      @ join '', ''
                          (filter (\<lambda>t. \<not> search_whole_word (lower t) (lower ''Short''))
                             (thr_required_terms (thresholds password_case)))]
                else [])"
    using b r2 by blast
  then have f2: "failures r2 = [''Similarity 0.00 below threshold 0.80'',
                         ''Length 1 words outside range [3, 10]'',
                         ''Missing required terms: password, reset'']"
    using terms_short by (simp add: th similarity_short tokenize_short fm si)
  have "passed r2 \<longleftrightarrow> failures r2 = []" using b r2 by blast
  then have p2: "\<not> passed r2" using f2 by simp
  show ?thesis using r1 p1 f1 r2 p2 f2 by blast
qed

end
